theory Spec2Isabelle
  imports Main "HOL-Library.Word"
begin

section \<open>serve-and-track: the handlers of \<^verbatim>\<open>serve_and_track.go\<close>\<close>

text \<open>
  The program is a small HTTP service: \<^verbatim>\<open>serveImage\<close> answers the tracking path with a
  fixed GIF and updates three Prometheus metrics, \<^verbatim>\<open>serveState\<close> answers the state path
  from the presence of a marker file, and a gorilla/mux router hands each request to the
  first registered route whose path matches.

  The handlers are embedded as state transformers. What Go keeps in package-level
  variables (the three metrics, the service log) is the record \<open>world\<close>. What the
  handlers only read from outside the process comes in with each request as \<open>env\<close>:
  the filesystem as \<^verbatim>\<open>os.Stat\<close> sees it at that moment and the two clock readings of
  \<^verbatim>\<open>time.Now\<close> and \<^verbatim>\<open>time.Since\<close>. The \<^verbatim>\<open>http.ResponseWriter\<close> is a record of
  its own. Handlers run one after the other in the model; every metric update of the
  source is a single atomic increment, so the totals do not depend on the interleaving.
\<close>

subsection \<open>Configuration\<close>

text \<open>The command line flags; \<open>defaultConfig\<close> holds the \<^verbatim>\<open>Default(...)\<close> values.\<close>

record config =
  listenAddress :: string
  trackingURLPath :: string
  metricsURLPath :: string
  stateURLPath :: string
  stateFilePath :: string
  accessLogFilePath :: string
  serviceLogFilePath :: string

definition defaultConfig :: config where
  "defaultConfig =
     \<lparr>listenAddress = '':8080'',
      trackingURLPath = ''/track'',
      metricsURLPath = ''/metrics'',
      stateURLPath = ''/state'',
      stateFilePath = ''./state'',
      accessLogFilePath = '''',
      serviceLogFilePath = ''''\<rparr>"

subsection \<open>Bytes and the tracking image\<close>

type_synonym byte = "8 word"

text \<open>\<^verbatim>\<open>[]byte(s)\<close> of a Go string: its bytes.\<close>

definition bytes :: "string \<Rightarrow> byte list" where
  "bytes s = map of_char s"

text \<open>\<^verbatim>\<open>var GIF = []byte{...}\<close>, the three source lines of 16, 16 and 10 values.\<close>

definition GIF :: "byte list" where
  "GIF =
     [71, 73, 70, 56, 57, 97, 1, 0, 1, 0, 128, 0, 0, 0, 0, 0,
      255, 255, 255, 33, 249, 4, 1, 0, 0, 0, 0, 44, 0, 0, 0, 0,
      1, 0, 1, 0, 0, 2, 1, 68, 0, 59]"

subsection \<open>The response writer\<close>

text \<open>
  \<^verbatim>\<open>http.ResponseWriter\<close> as net/http implements it. \<open>header\<close> is the map behind
  \<^verbatim>\<open>w.Header()\<close>. \<open>status\<close> is \<open>None\<close> until the status line is committed; at that
  moment the header map is frozen into \<open>sentHeader\<close>, and later changes of \<open>header\<close>
  no longer reach the client. \<open>body\<close> is what has been written. \<open>writeErr\<close> is the
  behaviour of the connection, given from outside: \<open>None\<close> when writes succeed,
  \<open>Some (n, e)\<close> when a write fails with the error \<open>e\<close> after \<open>n\<close> bytes.
\<close>

type_synonym error = string

type_synonym http_header = "string \<rightharpoonup> string list"

record response_writer =
  header :: http_header
  status :: "nat option"
  sentHeader :: http_header
  body :: "byte list"
  writeErr :: "(nat \<times> error) option"

text \<open>The writer a handler receives for a new request.\<close>

definition newResponseWriter :: "(nat \<times> error) option \<Rightarrow> response_writer" where
  "newResponseWriter we =
     \<lparr>header = Map.empty, status = None, sentHeader = Map.empty, body = [], writeErr = we\<rparr>"

text \<open>
  \<^verbatim>\<open>w.Header().Set(k, v)\<close> and \<^verbatim>\<open>w.Header().Del(k)\<close>. Go canonicalises the key; every
  key the program uses is already in canonical form.
\<close>

definition headerSet :: "string \<Rightarrow> string \<Rightarrow> response_writer \<Rightarrow> response_writer" where
  "headerSet k v w = w\<lparr>header := (header w)(k \<mapsto> [v])\<rparr>"

definition headerDel :: "string \<Rightarrow> response_writer \<Rightarrow> response_writer" where
  "headerDel k w = w\<lparr>header := (header w)(k := None)\<rparr>"

text \<open>\<^verbatim>\<open>w.WriteHeader(code)\<close>: the first call commits, a later one is ignored.\<close>

definition WriteHeader :: "nat \<Rightarrow> response_writer \<Rightarrow> response_writer" where
  "WriteHeader code w =
     (case status w of
        None \<Rightarrow> w\<lparr>status := Some code, sentHeader := header w\<rparr>
      | Some c \<Rightarrow> w)"

text \<open>
  \<^verbatim>\<open>w.Write(data)\<close> returns \<^verbatim>\<open>(n, err)\<close>. A write before any \<^verbatim>\<open>WriteHeader\<close>
  commits status 200 first.
\<close>

definition Write :: "byte list \<Rightarrow> response_writer \<Rightarrow> (nat \<times> error option) \<times> response_writer" where
  "Write data w =
     (let w' = WriteHeader 200 w
      in case writeErr w' of
           None \<Rightarrow> ((length data, None), w'\<lparr>body := body w' @ data\<rparr>)
         | Some (n, e) \<Rightarrow>
             ((min n (length data), Some e), w'\<lparr>body := body w' @ take n data\<rparr>))"

record request =
  reqMethod :: string
  reqPath :: string

text \<open>
  \<^verbatim>\<open>http.Error\<close> and \<^verbatim>\<open>http.NotFound\<close> of net/http: the error text and a newline as
  plain text under the given status. The result of the write is dropped, as
  \<^verbatim>\<open>fmt.Fprintln\<close>'s is in the library.
\<close>

definition httpError :: "response_writer \<Rightarrow> string \<Rightarrow> nat \<Rightarrow> response_writer" where
  "httpError w msg code =
     (let w1 = headerDel ''Content-Length'' w;
          w2 = headerSet ''Content-Type'' ''text/plain; charset=utf-8'' w1;
          w3 = headerSet ''X-Content-Type-Options'' ''nosniff'' w2;
          w4 = WriteHeader code w3
      in snd (Write (bytes (msg @ [CHR 0x0A])) w4))"

definition NotFound :: "response_writer \<Rightarrow> request \<Rightarrow> response_writer" where
  "NotFound w r = httpError w ''404 page not found'' 404"

subsection \<open>Process state and environment\<close>

text \<open>
  \<^verbatim>\<open>os.Stat\<close> either fails or yields a \<^verbatim>\<open>FileInfo\<close>; the filesystem is the function
  that says which, for every path.
\<close>

datatype stat_error = ErrNotExist | ErrPermission | ErrOther string

datatype file_info = FileInfo

type_synonym filesystem = "string \<Rightarrow> stat_error + file_info"

text \<open>
  The metrics of the \<^verbatim>\<open>var\<close> block and the service log. The summary
  \<^verbatim>\<open>serveImageRequestDuration\<close> is the list of its observations, each the elapsed
  \<^verbatim>\<open>time.Duration\<close> in nanoseconds (the source observes that duration in seconds); its
  count is the length of the list. \<^verbatim>\<open>serveImageRequestsSize\<close> is a counter, and
  \<^verbatim>\<open>serveImageRequestsCount\<close> a counter for each value of the label \<^verbatim>\<open>status\<close>, a
  child coming into being at its first use. The counters count in natural numbers, the
  values the library reports for the whole numbers this program adds. \<open>statTrace\<close>
  lists the paths handed to \<^verbatim>\<open>os.Stat\<close>, in order: it is how the model observes that a
  stat took place.
\<close>

record world =
  serveImageRequestDuration :: "int list"
  serveImageRequestsSize :: nat
  serveImageRequestsCount :: "string \<rightharpoonup> nat"
  serviceLog :: "string list"
  statTrace :: "string list"

record env =
  fsNow :: filesystem
  clockEntry :: int
  clockExit :: int

text \<open>The state at process start: every metric as its constructor leaves it.\<close>

definition startWorld :: world where
  "startWorld =
     \<lparr>serveImageRequestDuration = [],
      serveImageRequestsSize = 0,
      serveImageRequestsCount = Map.empty,
      serviceLog = [],
      statTrace = []\<rparr>"

text \<open>The value a scrape reports for one label value: a child not yet created counts 0.\<close>

definition counterValue :: "(string \<rightharpoonup> nat) \<Rightarrow> string \<Rightarrow> nat" where
  "counterValue m l = (case m l of None \<Rightarrow> 0 | Some n \<Rightarrow> n)"

text \<open>\<^verbatim>\<open>serveImageRequestsCount.WithLabelValues(l).Inc()\<close>\<close>

definition countInc :: "string \<Rightarrow> world \<Rightarrow> world" where
  "countInc l s =
     s\<lparr>serveImageRequestsCount :=
         (serveImageRequestsCount s)(l \<mapsto> Suc (counterValue (serveImageRequestsCount s) l))\<rparr>"

text \<open>\<^verbatim>\<open>serveImageRequestsSize.Add(v)\<close>\<close>

definition sizeAdd :: "nat \<Rightarrow> world \<Rightarrow> world" where
  "sizeAdd v s = s\<lparr>serveImageRequestsSize := serveImageRequestsSize s + v\<rparr>"

text \<open>\<^verbatim>\<open>serveImageRequestDuration.Observe(v)\<close>\<close>

definition durationObserve :: "int \<Rightarrow> world \<Rightarrow> world" where
  "durationObserve v s = s\<lparr>serveImageRequestDuration := serveImageRequestDuration s @ [v]\<rparr>"

text \<open>\<^verbatim>\<open>log.Println(a, b)\<close>: one line, the operands separated by a space.\<close>

definition logPrintln :: "string \<Rightarrow> string \<Rightarrow> world \<Rightarrow> world" where
  "logPrintln a b s = s\<lparr>serviceLog := serviceLog s @ [a @ '' '' @ b]\<rparr>"

subsection \<open>The handlers\<close>

text \<open>
  \<^verbatim>\<open>trackServeImageDuration(start, id)\<close>: \<open>now\<close> is the clock when \<^verbatim>\<open>time.Since\<close>
  reads it.
\<close>

definition trackServeImageDuration :: "int \<Rightarrow> int \<Rightarrow> string \<Rightarrow> world \<Rightarrow> world" where
  "trackServeImageDuration now start ident s =
     (let elapsed = now - start in durationObserve elapsed s)"

text \<open>
  \<^verbatim>\<open>serveImage\<close>. The \<^verbatim>\<open>defer\<close> of its first line evaluates \<^verbatim>\<open>time.Now()\<close> at once
  and runs \<^verbatim>\<open>trackServeImageDuration\<close> when the function returns, on each of its three
  exits.
\<close>

definition serveImage :: "env \<Rightarrow> response_writer \<Rightarrow> request \<Rightarrow> world \<Rightarrow> response_writer \<times> world" where
  "serveImage e w r s =
     (let start = clockEntry e;
          (w', s') =
            (if reqMethod r \<noteq> ''GET'' then (NotFound w r, s)
             else
               let w1 = headerSet ''Cache-Control'' ''no-cache, no-store, must-revalidate'' w;
                   w2 = headerSet ''Content-Type'' ''image/gif'' w1;
                   ((n, err), w3) = Write GIF w2
               in if err \<noteq> None then (w3, countInc ''failure'' s)
                  else (w3, sizeAdd (length GIF) (countInc ''success'' s)))
      in (w', trackServeImageDuration (clockExit e) start ''serveImage'' s'))"

text \<open>\<^verbatim>\<open>os.Stat(path)\<close>: reads the filesystem, and leaves its mark in the trace.\<close>

definition osStat :: "filesystem \<Rightarrow> string \<Rightarrow> world \<Rightarrow> (stat_error + file_info) \<times> world" where
  "osStat fs path s = (fs path, s\<lparr>statTrace := statTrace s @ [path]\<rparr>)"

text \<open>\<^verbatim>\<open>serviceHealthy\<close>: \<^verbatim>\<open>err == nil\<close>.\<close>

definition serviceHealthy :: "config \<Rightarrow> filesystem \<Rightarrow> world \<Rightarrow> bool \<times> world" where
  "serviceHealthy cfg fs s =
     (let (res, s') = osStat fs (stateFilePath cfg) s
      in (case res of Inl err \<Rightarrow> False | Inr fi \<Rightarrow> True, s'))"

text \<open>\<^verbatim>\<open>serveState\<close>\<close>

definition serveState ::
  "config \<Rightarrow> env \<Rightarrow> response_writer \<Rightarrow> request \<Rightarrow> world \<Rightarrow> response_writer \<times> world" where
  "serveState cfg e w r s =
     (if reqMethod r \<noteq> ''GET'' then (NotFound w r, s)
      else
        let w1 = headerSet ''Cache-Control'' ''no-cache, no-store, must-revalidate'' w;
            w2 = headerSet ''Content-Type'' ''text/html'' w1;
            (healthy, s1) = serviceHealthy cfg (fsNow e) s
        in if \<not> healthy then
             let w3 = WriteHeader 503 w2;
                 ((n, err), w4) = Write (bytes ''Error 503 (Service not available)'') w3
             in (case err of
                   Some msg \<Rightarrow> (w4, logPrintln ''WARNING'' msg s1)
                 | None \<Rightarrow> (w4, s1))
           else
             let ((n, err), w3) = Write (bytes ''OK'') w2
             in (case err of
                   Some msg \<Rightarrow> (w3, logPrintln ''WARNING'' msg s1)
                 | None \<Rightarrow> (w3, s1)))"

subsection \<open>Routing\<close>

text \<open>
  One request as the server receives it: the request, the behaviour of its connection, and
  the environment at that moment. \<open>reqPath\<close> is \<^verbatim>\<open>req.URL.Path\<close>.
\<close>

record call =
  callRequest :: request
  callConn :: "(nat \<times> error) option"
  callEnv :: env

text \<open>
  \<^verbatim>\<open>initServer\<close> registers three routes on a gorilla/mux router. Before it looks at
  any route, the router compares the request path with its canonical form and answers a
  path that is not canonical with a redirect. \<open>cleanPath\<close> is mux's function of that
  name: a leading slash, then \<^verbatim>\<open>path.Clean\<close> (empty and \<^verbatim>\<open>.\<close> elements dropped, a
  \<^verbatim>\<open>..\<close> element taking the element before it along, or nothing at the root), and the
  trailing slash of the input put back.
\<close>

fun splitSlash :: "string \<Rightarrow> string \<Rightarrow> string list" where
  "splitSlash cur [] = [cur]"
| "splitSlash cur (c # cs) =
     (if c = CHR ''/'' then cur # splitSlash [] cs else splitSlash (cur @ [c]) cs)"

fun cleanElements :: "string list \<Rightarrow> string list \<Rightarrow> string list" where
  "cleanElements kept [] = rev kept"
| "cleanElements kept (x # xs) =
     (if x = [] \<or> x = ''.'' then cleanElements kept xs
      else if x = ''..'' then cleanElements (case kept of [] \<Rightarrow> [] | k # ks \<Rightarrow> ks) xs
      else cleanElements (x # kept) xs)"

fun joinSlash :: "string list \<Rightarrow> string" where
  "joinSlash [] = []"
| "joinSlash [x] = x"
| "joinSlash (x # y # ys) = x @ ''/'' @ joinSlash (y # ys)"

text \<open>\<^verbatim>\<open>path.Clean\<close> on a path that begins with a slash.\<close>

definition pathClean :: "string \<Rightarrow> string" where
  "pathClean p = ''/'' @ joinSlash (cleanElements [] (splitSlash [] p))"

definition cleanPath :: "string \<Rightarrow> string" where
  "cleanPath p =
     (if p = [] then ''/''
      else
        let p' = (if hd p \<noteq> CHR ''/'' then ''/'' @ p else p);
            np = pathClean p'
        in if last p' = CHR ''/'' \<and> np \<noteq> ''/'' then np @ ''/'' else np)"

text \<open>
  A route registered with \<^verbatim>\<open>HandleFunc(tpl, f)\<close> matches a request path. A template
  without braces is a literal and matches the path equal to it. A template with braces has
  variables; how mux matches those is the parameter \<open>templateMatch\<close> of the model.
  The other library handler, \<^verbatim>\<open>promhttp.Handler()\<close> of the third route, is the
  parameter \<open>promhttpHandler\<close>: it reads the metrics and writes a response.
\<close>

type_synonym metrics_handler = "world \<Rightarrow> response_writer \<Rightarrow> request \<Rightarrow> response_writer"

record libraries =
  templateMatch :: "string \<Rightarrow> string \<Rightarrow> bool"
  promhttpHandler :: metrics_handler

definition literal :: "string \<Rightarrow> bool" where
  "literal tpl = (CHR ''{'' \<notin> set tpl \<and> CHR ''}'' \<notin> set tpl)"

definition routeMatch :: "libraries \<Rightarrow> string \<Rightarrow> string \<Rightarrow> bool" where
  "routeMatch lib tpl p = (if literal tpl then p = tpl else templateMatch lib tpl p)"

text \<open>
  Where the router sends a request path: the redirect first, then the three routes in the
  order of their registration, the first match winning.
\<close>

datatype target = Redirect string | ToImage | ToState | ToMetrics | Unmatched

definition route :: "config \<Rightarrow> libraries \<Rightarrow> string \<Rightarrow> target" where
  "route cfg lib p =
     (if cleanPath p \<noteq> p then Redirect (cleanPath p)
      else if routeMatch lib (trackingURLPath cfg) p then ToImage
      else if routeMatch lib (stateURLPath cfg) p then ToState
      else if routeMatch lib (metricsURLPath cfg) p then ToMetrics
      else Unmatched)"

text \<open>
  The redirect of the router: the canonical path as \<^verbatim>\<open>Location\<close> under status 301,
  without a body.
\<close>

definition redirect :: "response_writer \<Rightarrow> string \<Rightarrow> response_writer" where
  "redirect w p = WriteHeader 301 (headerSet ''Location'' p w)"

text \<open>
  The server's handler: a new writer, then the router. mux answers a request that no
  route matches with \<^verbatim>\<open>http.NotFound\<close>. The access-log wrapper around the router
  passes request and response through.
\<close>

definition serve :: "config \<Rightarrow> libraries \<Rightarrow> call \<Rightarrow> world \<Rightarrow> response_writer \<times> world" where
  "serve cfg lib c s =
     (let w = newResponseWriter (callConn c);
          r = callRequest c
      in case route cfg lib (reqPath r) of
           Redirect p \<Rightarrow> (redirect w p, s)
         | ToImage \<Rightarrow> serveImage (callEnv c) w r s
         | ToState \<Rightarrow> serveState cfg (callEnv c) w r s
         | ToMetrics \<Rightarrow> (promhttpHandler lib s w r, s)
         | Unmatched \<Rightarrow> (NotFound w r, s))"

text \<open>A sequence of requests, each served in the state its predecessor left.\<close>

fun serveAll :: "config \<Rightarrow> libraries \<Rightarrow> call list \<Rightarrow> world \<Rightarrow> world" where
  "serveAll cfg lib [] s = s"
| "serveAll cfg lib (c # cs) s = serveAll cfg lib cs (snd (serve cfg lib c s))"

text \<open>The requests of a sequence that the router hands to \<^verbatim>\<open>serveImage\<close>.\<close>

definition imageCalls :: "config \<Rightarrow> libraries \<Rightarrow> call list \<Rightarrow> call list" where
  "imageCalls cfg lib cs = filter (\<lambda>c. route cfg lib (reqPath (callRequest c)) = ToImage) cs"

text \<open>The requests of a sequence whose path is the configured tracking path.\<close>

definition trackingCalls :: "config \<Rightarrow> call list \<Rightarrow> call list" where
  "trackingCalls cfg cs = filter (\<lambda>c. reqPath (callRequest c) = trackingURLPath cfg) cs"

text \<open>
  A configured path that the router serves under its own name: a literal in canonical
  form. The defaults \<^verbatim>\<open>/track\<close>, \<^verbatim>\<open>/state\<close> and \<^verbatim>\<open>/metrics\<close> are of this kind;
  \<^verbatim>\<open>/a//b\<close> (redirected before any route is tried) and \<^verbatim>\<open>/track/{id}\<close> (a template)
  are not.
\<close>

definition cleanLiteral :: "string \<Rightarrow> bool" where
  "cleanLiteral p = (literal p \<and> cleanPath p = p)"

subsection \<open>Sample surroundings\<close>

text \<open>
  Concrete surroundings for the worked instances below: a filesystem without any entry,
  \<^verbatim>\<open>touch path\<close> and \<^verbatim>\<open>rm -f path\<close> on a filesystem, a metrics handler that answers
  200 with an empty exposition, and a template matcher that matches nothing.
\<close>

definition fsEmpty :: filesystem where
  "fsEmpty path = Inl ErrNotExist"

definition fsTouch :: "string \<Rightarrow> filesystem \<Rightarrow> filesystem" where
  "fsTouch path fs = fs(path := Inr FileInfo)"

definition fsRemove :: "string \<Rightarrow> filesystem \<Rightarrow> filesystem" where
  "fsRemove path fs = fs(path := Inl ErrNotExist)"

definition emptyExposition :: metrics_handler where
  "emptyExposition s w r = snd (Write [] w)"

definition noTemplates :: "string \<Rightarrow> string \<Rightarrow> bool" where
  "noTemplates tpl p = False"

definition sampleLibraries :: libraries where
  "sampleLibraries = \<lparr>templateMatch = noTemplates, promhttpHandler = emptyExposition\<rparr>"

definition sampleEnv :: "filesystem \<Rightarrow> env" where
  "sampleEnv fs = \<lparr>fsNow = fs, clockEntry = 1000, clockExit = 1250\<rparr>"

definition sampleCall :: "string \<Rightarrow> string \<Rightarrow> (nat \<times> error) option \<Rightarrow> filesystem \<Rightarrow> call" where
  "sampleCall m p we fs =
     \<lparr>callRequest = \<lparr>reqMethod = m, reqPath = p\<rparr>, callConn = we, callEnv = sampleEnv fs\<rparr>"

section \<open>Properties\<close>

lemma GIF_length: "length GIF = 42"
  by (simp add: GIF_def)

subsection \<open>The response writer and the handlers, step by step\<close>

lemma Write_ok:
  "writeErr w = None \<Longrightarrow>
   Write d w = ((length d, None), (WriteHeader 200 w)\<lparr>body := body (WriteHeader 200 w) @ d\<rparr>)"
  by (simp add: Write_def Let_def WriteHeader_def split: option.splits)

lemma Write_fail:
  "writeErr w = Some (n, e) \<Longrightarrow>
   Write d w = ((min n (length d), Some e), (WriteHeader 200 w)\<lparr>body := body (WriteHeader 200 w) @ take n d\<rparr>)"
  by (simp add: Write_def Let_def WriteHeader_def split: option.splits)

lemma NotFound_status:
  "status w = None \<Longrightarrow> status (NotFound w r) = Some 404"
  by (simp add: NotFound_def httpError_def Let_def Write_def WriteHeader_def headerSet_def headerDel_def
      split: option.splits prod.splits)

lemma NotFound_sentHeader:
  "status w = None \<Longrightarrow> sentHeader (NotFound w r) =
     (header w)(''Content-Length'' := None, ''Content-Type'' \<mapsto> [''text/plain; charset=utf-8''],
        ''X-Content-Type-Options'' \<mapsto> [''nosniff''])"
  by (simp add: NotFound_def httpError_def Let_def Write_def WriteHeader_def headerSet_def headerDel_def
      split: option.splits prod.splits)

lemma serveImage_duration:
  "serveImageRequestDuration (snd (serveImage e w r s)) =
     serveImageRequestDuration s @ [clockExit e - clockEntry e]"
  by (simp add: serveImage_def Let_def trackServeImageDuration_def durationObserve_def
      countInc_def sizeAdd_def split: prod.splits)

lemma serveImage_success:
  assumes "reqMethod r = ''GET''" "writeErr w = None"
  shows "serveImageRequestsCount (snd (serveImage e w r s)) =
           (serveImageRequestsCount s)(''success'' \<mapsto> Suc (counterValue (serveImageRequestsCount s) ''success''))"
    and "serveImageRequestsSize (snd (serveImage e w r s)) = serveImageRequestsSize s + length GIF"
  using assms
  by (simp_all add: serveImage_def Let_def trackServeImageDuration_def durationObserve_def
      countInc_def sizeAdd_def Write_ok headerSet_def split: prod.splits)

lemma serveImage_failure:
  assumes "reqMethod r = ''GET''" "writeErr w = Some (n, err)"
  shows "serveImageRequestsCount (snd (serveImage e w r s)) =
           (serveImageRequestsCount s)(''failure'' \<mapsto> Suc (counterValue (serveImageRequestsCount s) ''failure''))"
    and "serveImageRequestsSize (snd (serveImage e w r s)) = serveImageRequestsSize s"
    and "serviceLog (snd (serveImage e w r s)) = serviceLog s"
    and "statTrace (snd (serveImage e w r s)) = statTrace s"
  using assms
  by (simp_all add: serveImage_def Let_def trackServeImageDuration_def durationObserve_def
      countInc_def sizeAdd_def Write_fail headerSet_def split: prod.splits)

lemma serveImage_not_GET:
  assumes "reqMethod r \<noteq> ''GET''"
  shows "fst (serveImage e w r s) = NotFound w r"
    and "snd (serveImage e w r s) = durationObserve (clockExit e - clockEntry e) s"
  using assms
  by (simp_all add: serveImage_def Let_def trackServeImageDuration_def)

lemma serveState_not_GET:
  "reqMethod r \<noteq> ''GET'' \<Longrightarrow> serveState cfg e w r s = (NotFound w r, s)"
  by (simp add: serveState_def)

lemma serveState_metrics:
  "serveImageRequestDuration (snd (serveState cfg e w r s)) = serveImageRequestDuration s"
  "serveImageRequestsCount (snd (serveState cfg e w r s)) = serveImageRequestsCount s"
  "serveImageRequestsSize (snd (serveState cfg e w r s)) = serveImageRequestsSize s"
  by (simp_all add: serveState_def Let_def serviceHealthy_def osStat_def logPrintln_def
      split: prod.splits option.splits sum.splits)

lemma bytes_OK_length: "length (bytes ''OK'') = 2"
  by (simp add: bytes_def)

lemma bytes_503_length: "length (bytes ''Error 503 (Service not available)'') = 33"
  by (simp add: bytes_def)

lemma GIF_signature: "take 6 GIF = bytes ''GIF89a''"
  by (simp add: GIF_def bytes_def)

lemma serviceHealthy_fst:
  "fst (serviceHealthy cfg fs s) = (\<exists>fi. fs (stateFilePath cfg) = Inr fi)"
  by (simp add: serviceHealthy_def osStat_def split: sum.splits)

lemma serviceHealthy_snd:
  "snd (serviceHealthy cfg fs s) = s\<lparr>statTrace := statTrace s @ [stateFilePath cfg]\<rparr>"
  by (simp add: serviceHealthy_def osStat_def)

lemma serveState_GET_healthy:
  assumes "reqMethod r = ''GET''" "fsNow e (stateFilePath cfg) = Inr fi"
  shows "fst (serveState cfg e w r s) =
           snd (Write (bytes ''OK'')
             (headerSet ''Content-Type'' ''text/html''
               (headerSet ''Cache-Control'' ''no-cache, no-store, must-revalidate'' w)))"
  using assms
  by (simp add: serveState_def Let_def serviceHealthy_def osStat_def
      split: prod.splits option.splits)

lemma serveState_GET_unhealthy:
  assumes "reqMethod r = ''GET''" "fsNow e (stateFilePath cfg) = Inl err"
  shows "fst (serveState cfg e w r s) =
           snd (Write (bytes ''Error 503 (Service not available)'')
             (WriteHeader 503
               (headerSet ''Content-Type'' ''text/html''
                 (headerSet ''Cache-Control'' ''no-cache, no-store, must-revalidate'' w))))"
  using assms
  by (simp add: serveState_def Let_def serviceHealthy_def osStat_def
      split: prod.splits option.splits)

lemma serveState_response_stateless:
  "fst (serveState cfg e w r s') = fst (serveState cfg e w r s)"
proof (cases "reqMethod r = ''GET''")
  case False
  then show ?thesis by (simp add: serveState_not_GET)
next
  case True
  show ?thesis
  proof (cases "fsNow e (stateFilePath cfg)")
    case (Inl err)
    show ?thesis by (simp only: serveState_GET_unhealthy [OF True Inl])
  next
    case (Inr fi)
    show ?thesis by (simp only: serveState_GET_healthy [OF True Inr])
  qed
qed

lemma Write_new_status:
  "status (snd (Write d (headerSet k2 v2 (headerSet k1 v1 (newResponseWriter we))))) = Some 200"
  by (simp add: Write_def Let_def WriteHeader_def headerSet_def newResponseWriter_def
      split: option.splits prod.splits)

lemma Write_503_status:
  "status (snd (Write d (WriteHeader 503 (headerSet k2 v2 (headerSet k1 v1 (newResponseWriter we)))))) = Some 503"
  by (simp add: Write_def Let_def WriteHeader_def headerSet_def newResponseWriter_def
      split: option.splits prod.splits)

lemma Write_new_body:
  "body (snd (Write d (headerSet k2 v2 (headerSet k1 v1 (newResponseWriter None))))) = d"
  by (simp add: Write_def Let_def WriteHeader_def headerSet_def newResponseWriter_def)

lemma Write_503_body:
  "body (snd (Write d (WriteHeader 503 (headerSet k2 v2 (headerSet k1 v1 (newResponseWriter None)))))) = d"
  by (simp add: Write_def Let_def WriteHeader_def headerSet_def newResponseWriter_def)

lemma Write_new_sentHeader:
  "sentHeader (snd (Write d (headerSet k2 v2 (headerSet k1 v1 (newResponseWriter we))))) =
     [k1 \<mapsto> [v1], k2 \<mapsto> [v2]]"
  by (simp add: Write_def Let_def WriteHeader_def headerSet_def newResponseWriter_def
      split: option.splits prod.splits)

lemma Write_503_sentHeader:
  "sentHeader (snd (Write d (WriteHeader 503 (headerSet k2 v2 (headerSet k1 v1 (newResponseWriter we)))))) =
     [k1 \<mapsto> [v1], k2 \<mapsto> [v2]]"
  by (simp add: Write_def Let_def WriteHeader_def headerSet_def newResponseWriter_def
      split: option.splits prod.splits)

lemma serveImage_GET_writer:
  assumes "reqMethod r = ''GET''"
  shows "fst (serveImage e w r s) =
           snd (Write GIF
             (headerSet ''Content-Type'' ''image/gif''
               (headerSet ''Cache-Control'' ''no-cache, no-store, must-revalidate'' w)))"
  using assms
  by (simp add: serveImage_def Let_def split: prod.splits)

lemma newResponseWriter_status: "status (newResponseWriter we) = None"
  by (simp add: newResponseWriter_def)

subsection \<open>The router\<close>

text \<open>
  With a tracking path that is a literal in canonical form, the router hands a request to
  \<^verbatim>\<open>serveImage\<close> exactly when its path is the tracking path.
\<close>

lemma route_image_iff:
  assumes "cleanLiteral (trackingURLPath cfg)"
  shows "(route cfg lib p = ToImage) = (p = trackingURLPath cfg)"
proof
  assume "route cfg lib p = ToImage"
  then have "routeMatch lib (trackingURLPath cfg) p"
    by (simp add: route_def split: if_splits)
  then show "p = trackingURLPath cfg"
    using assms by (simp add: routeMatch_def cleanLiteral_def)
next
  assume "p = trackingURLPath cfg"
  then show "route cfg lib p = ToImage"
    using assms by (simp add: route_def routeMatch_def cleanLiteral_def)
qed

text \<open>
  A request to a state path of that kind goes to \<^verbatim>\<open>serveState\<close>, unless the route of
  the tracking path, registered first, matches it too.
\<close>

lemma route_state_path:
  assumes "cleanLiteral (stateURLPath cfg)"
  shows "route cfg lib (stateURLPath cfg) = ToImage \<or> route cfg lib (stateURLPath cfg) = ToState"
  using assms by (simp add: route_def routeMatch_def cleanLiteral_def)

lemma route_state_distinct:
  assumes "cleanLiteral (stateURLPath cfg)"
      and "cleanLiteral (trackingURLPath cfg)"
      and "stateURLPath cfg \<noteq> trackingURLPath cfg"
  shows "route cfg lib (stateURLPath cfg) = ToState"
  using assms by (simp add: route_def routeMatch_def cleanLiteral_def)

lemma serve_image:
  "route cfg lib (reqPath (callRequest c)) = ToImage \<Longrightarrow>
   serve cfg lib c s = serveImage (callEnv c) (newResponseWriter (callConn c)) (callRequest c) s"
  by (simp add: serve_def Let_def)

lemma serve_state:
  "route cfg lib (reqPath (callRequest c)) = ToState \<Longrightarrow>
   serve cfg lib c s = serveState cfg (callEnv c) (newResponseWriter (callConn c)) (callRequest c) s"
  by (simp add: serve_def Let_def)

lemma serve_not_image_metrics:
  assumes "route cfg lib (reqPath (callRequest c)) \<noteq> ToImage"
  shows "serveImageRequestDuration (snd (serve cfg lib c s)) = serveImageRequestDuration s"
    and "serveImageRequestsCount (snd (serve cfg lib c s)) = serveImageRequestsCount s"
    and "serveImageRequestsSize (snd (serve cfg lib c s)) = serveImageRequestsSize s"
  using assms
  by (cases "route cfg lib (reqPath (callRequest c))";
      simp add: serve_def Let_def serveState_metrics)+

lemma serve_non_GET_writer:
  assumes "reqMethod (callRequest c) \<noteq> ''GET''"
      and "route cfg lib (reqPath (callRequest c)) = ToImage
         \<or> route cfg lib (reqPath (callRequest c)) = ToState"
  shows "fst (serve cfg lib c s) = NotFound (newResponseWriter (callConn c)) (callRequest c)"
  using assms
  by (auto simp add: serve_def Let_def serveImage_not_GET serveState_not_GET)

lemma serve_non_GET_world:
  assumes "reqMethod (callRequest c) \<noteq> ''GET''"
      and "route cfg lib (reqPath (callRequest c)) = ToImage
         \<or> route cfg lib (reqPath (callRequest c)) = ToState"
  shows "snd (serve cfg lib c s) =
           (if route cfg lib (reqPath (callRequest c)) = ToImage
            then durationObserve (clockExit (callEnv c) - clockEntry (callEnv c)) s else s)"
  using assms
  by (auto simp add: serve_def Let_def serveImage_not_GET serveState_not_GET)

lemma serve_GET_writer:
  assumes "reqMethod (callRequest c) = ''GET''"
      and "route cfg lib (reqPath (callRequest c)) = ToImage
         \<or> route cfg lib (reqPath (callRequest c)) = ToState"
  shows "sentHeader (fst (serve cfg lib c s)) ''Cache-Control'' =
           Some [''no-cache, no-store, must-revalidate'']"
proof (cases "route cfg lib (reqPath (callRequest c)) = ToImage")
  case True
  show ?thesis
    by (simp add: serve_image [OF True] serveImage_GET_writer [OF assms(1)] Write_new_sentHeader)
next
  case False
  then have st: "route cfg lib (reqPath (callRequest c)) = ToState"
    using assms(2) by simp
  show ?thesis
  proof (cases "fsNow (callEnv c) (stateFilePath cfg)")
    case (Inl err)
    show ?thesis
      by (simp add: serve_state [OF st] serveState_GET_unhealthy [OF assms(1) Inl]
          Write_503_sentHeader)
  next
    case (Inr fi)
    show ?thesis
      by (simp add: serve_state [OF st] serveState_GET_healthy [OF assms(1) Inr]
          Write_new_sentHeader)
  qed
qed

text \<open>The default paths are literals in canonical form, and differ.\<close>

lemma default_tracking_cleanLiteral: "cleanLiteral (trackingURLPath defaultConfig)"
  by (simp add: defaultConfig_def cleanLiteral_def literal_def cleanPath_def pathClean_def)

lemma default_state_cleanLiteral: "cleanLiteral (stateURLPath defaultConfig)"
  by (simp add: defaultConfig_def cleanLiteral_def literal_def cleanPath_def pathClean_def)

lemma default_paths_distinct: "stateURLPath defaultConfig \<noteq> trackingURLPath defaultConfig"
  by (simp add: defaultConfig_def)

text \<open>
  A tracking path that is not in canonical form is never served: the request to it is
  redirected before any route is tried.
\<close>

lemma route_unclean_path:
  "route (defaultConfig\<lparr>trackingURLPath := ''/a//b''\<rparr>) sampleLibraries ''/a//b'' = Redirect ''/a/b''"
  by (simp add: route_def cleanPath_def pathClean_def)

subsection \<open>Sequences of requests\<close>

lemma imageCalls_Cons:
  "imageCalls cfg lib (c # cs) =
     (if route cfg lib (reqPath (callRequest c)) = ToImage then c # imageCalls cfg lib cs
      else imageCalls cfg lib cs)"
  by (simp add: imageCalls_def)

lemma imageCalls_literal:
  assumes "cleanLiteral (trackingURLPath cfg)"
  shows "imageCalls cfg lib cs = trackingCalls cfg cs"
  by (simp add: imageCalls_def trackingCalls_def route_image_iff [OF assms])

lemma serveAll_duration_length:
  "length (serveImageRequestDuration (serveAll cfg lib cs s)) =
     length (serveImageRequestDuration s) + length (imageCalls cfg lib cs)"
proof (induction cs arbitrary: s)
  case Nil
  show ?case by (simp add: imageCalls_def)
next
  case (Cons c cs)
  note IH = Cons.IH [of "snd (serve cfg lib c s)"]
  show ?case
  proof (cases "route cfg lib (reqPath (callRequest c)) = ToImage")
    case True
    have step: "serve cfg lib c s =
        serveImage (callEnv c) (newResponseWriter (callConn c)) (callRequest c) s"
      using True by (rule serve_image)
    have n: "imageCalls cfg lib (c # cs) = c # imageCalls cfg lib cs"
      using True by (simp add: imageCalls_Cons)
    show ?thesis
      using IH by (simp add: step n serveImage_duration)
  next
    case False
    have n: "imageCalls cfg lib (c # cs) = imageCalls cfg lib cs"
      using False by (simp add: imageCalls_Cons)
    have d: "serveImageRequestDuration (snd (serve cfg lib c s)) = serveImageRequestDuration s"
      using False by (rule serve_not_image_metrics(1))
    show ?thesis
      using IH by (simp only: serveAll.simps d n)
  qed
qed

lemma serveAll_metrics:
  assumes "\<forall>c \<in> set cs. route cfg lib (reqPath (callRequest c)) = ToImage \<longrightarrow>
             reqMethod (callRequest c) = ''GET'' \<and> callConn c = None"
  shows "counterValue (serveImageRequestsCount (serveAll cfg lib cs s)) ''success'' =
           counterValue (serveImageRequestsCount s) ''success'' + length (imageCalls cfg lib cs)
       \<and> counterValue (serveImageRequestsCount (serveAll cfg lib cs s)) ''failure'' =
           counterValue (serveImageRequestsCount s) ''failure''
       \<and> serveImageRequestsSize (serveAll cfg lib cs s) =
           serveImageRequestsSize s + length (imageCalls cfg lib cs) * length GIF"
  using assms
proof (induction cs arbitrary: s)
  case Nil
  show ?case by (simp add: imageCalls_def)
next
  case (Cons c cs)
  have rest: "\<forall>x \<in> set cs. route cfg lib (reqPath (callRequest x)) = ToImage \<longrightarrow>
             reqMethod (callRequest x) = ''GET'' \<and> callConn x = None"
    using Cons.prems by simp
  note IH = Cons.IH [OF rest, of "snd (serve cfg lib c s)"]
  show ?case
  proof (cases "route cfg lib (reqPath (callRequest c)) = ToImage")
    case True
    then have get: "reqMethod (callRequest c) = ''GET''" and ok: "callConn c = None"
      using Cons.prems by simp_all
    have wok: "writeErr (newResponseWriter (callConn c)) = None"
      using ok by (simp add: newResponseWriter_def)
    have step: "serve cfg lib c s =
        serveImage (callEnv c) (newResponseWriter (callConn c)) (callRequest c) s"
      using True by (rule serve_image)
    have n: "imageCalls cfg lib (c # cs) = c # imageCalls cfg lib cs"
      using True by (simp add: imageCalls_Cons)
    have cnt: "serveImageRequestsCount (snd (serve cfg lib c s)) =
        (serveImageRequestsCount s)(''success'' \<mapsto> Suc (counterValue (serveImageRequestsCount s) ''success''))"
      and sz: "serveImageRequestsSize (snd (serve cfg lib c s)) = serveImageRequestsSize s + length GIF"
      unfolding step using get wok by (rule serveImage_success(1), rule serveImage_success(2))
    have s1: "counterValue (serveImageRequestsCount (snd (serve cfg lib c s))) ''success'' =
        Suc (counterValue (serveImageRequestsCount s) ''success'')"
      and f1: "counterValue (serveImageRequestsCount (snd (serve cfg lib c s))) ''failure'' =
        counterValue (serveImageRequestsCount s) ''failure''"
      unfolding cnt by (simp_all add: counterValue_def)
    show ?thesis
      using IH by (simp only: serveAll.simps n s1 f1 sz) simp
  next
    case False
    have n: "imageCalls cfg lib (c # cs) = imageCalls cfg lib cs"
      using False by (simp add: imageCalls_Cons)
    have m: "serveImageRequestsCount (snd (serve cfg lib c s)) = serveImageRequestsCount s"
      using False by (rule serve_not_image_metrics(2))
    have m': "serveImageRequestsSize (snd (serve cfg lib c s)) = serveImageRequestsSize s"
      using False by (rule serve_not_image_metrics(3))
    show ?thesis
      using IH by (simp only: serveAll.simps m m' n)
  qed
qed

section \<open>The claims\<close>

text \<open>
  Claim C1. Let the tracking path be configured as a literal in canonical form, as the
  default \<^verbatim>\<open>/track\<close> is. Serve any sequence of requests from the start state in which
  every request to the tracking path is a GET whose body write succeeds, and let \<open>N\<close> be
  the number of requests to the tracking path. Afterwards the duration summary holds \<open>N\<close>
  observations, the \<^verbatim>\<open>success\<close> counter is \<open>N\<close>, the \<^verbatim>\<open>failure\<close> counter is 0 and the
  size counter is \<open>N\<close> times the length of \<open>GIF\<close>. Each of these requests, in whatever
  state it is served, is answered with status 200, content type \<^verbatim>\<open>image/gif\<close> and \<open>GIF\<close>
  as body. Requests to other paths may come in between.
\<close>

theorem tracking_success_totals:
  assumes "cleanLiteral (trackingURLPath cfg)"
      and "\<forall>c \<in> set cs. reqPath (callRequest c) = trackingURLPath cfg \<longrightarrow>
             reqMethod (callRequest c) = ''GET'' \<and> callConn c = None"
      and "N = length (trackingCalls cfg cs)"
  shows "length (serveImageRequestDuration (serveAll cfg lib cs startWorld)) = N
       \<and> counterValue (serveImageRequestsCount (serveAll cfg lib cs startWorld)) ''success'' = N
       \<and> counterValue (serveImageRequestsCount (serveAll cfg lib cs startWorld)) ''failure'' = 0
       \<and> serveImageRequestsSize (serveAll cfg lib cs startWorld) = N * length GIF
       \<and> (\<forall>c \<in> set (trackingCalls cfg cs). \<forall>s.
             status (fst (serve cfg lib c s)) = Some 200
           \<and> sentHeader (fst (serve cfg lib c s)) ''Content-Type'' = Some [''image/gif'']
           \<and> body (fst (serve cfg lib c s)) = GIF)"
proof -
  note img = route_image_iff [OF assms(1)]
  have n: "length (imageCalls cfg lib cs) = N"
    unfolding assms(3) by (simp only: imageCalls_literal [OF assms(1)])
  have routed: "\<forall>c \<in> set cs. route cfg lib (reqPath (callRequest c)) = ToImage \<longrightarrow>
             reqMethod (callRequest c) = ''GET'' \<and> callConn c = None"
    using assms(2) by (simp only: img)
  have d: "length (serveImageRequestDuration (serveAll cfg lib cs startWorld)) = N"
    using n by (simp add: serveAll_duration_length startWorld_def)
  have m: "counterValue (serveImageRequestsCount (serveAll cfg lib cs startWorld)) ''success'' = N
       \<and> counterValue (serveImageRequestsCount (serveAll cfg lib cs startWorld)) ''failure'' = 0
       \<and> serveImageRequestsSize (serveAll cfg lib cs startWorld) = N * length GIF"
    using serveAll_metrics [OF routed, of startWorld] n
    by (simp add: startWorld_def counterValue_def)
  have r: "status (fst (serve cfg lib c s)) = Some 200
           \<and> sentHeader (fst (serve cfg lib c s)) ''Content-Type'' = Some [''image/gif'']
           \<and> body (fst (serve cfg lib c s)) = GIF"
    if "c \<in> set (trackingCalls cfg cs)" for c s
  proof -
    have mem: "c \<in> set cs" and p: "reqPath (callRequest c) = trackingURLPath cfg"
      using that unfolding trackingCalls_def by (simp_all only: set_filter mem_Collect_eq)
    have get: "reqMethod (callRequest c) = ''GET''" and ok: "callConn c = None"
      using assms(2) mem p by blast+
    have to: "route cfg lib (reqPath (callRequest c)) = ToImage"
      using p by (simp only: img)
    show ?thesis
      by (simp add: serve_image [OF to] ok serveImage_GET_writer [OF get]
          Write_new_status Write_new_body Write_new_sentHeader)
  qed
  from d m r show ?thesis by blast
qed

text \<open>
  Two tracking requests with a state request in between, under the default configuration:
  two observations, two successes, no failure, 84 bytes.
\<close>

theorem tracking_success_totals_witness:
  "map (\<lambda>c. (reqMethod (callRequest c), callConn c))
     (trackingCalls defaultConfig
        [sampleCall ''GET'' ''/track'' None fsEmpty,
         sampleCall ''GET'' ''/state'' None fsEmpty,
         sampleCall ''GET'' ''/track'' None fsEmpty]) = [(''GET'', None), (''GET'', None)]
   \<and> length (serveImageRequestDuration (serveAll defaultConfig sampleLibraries
        [sampleCall ''GET'' ''/track'' None fsEmpty,
         sampleCall ''GET'' ''/state'' None fsEmpty,
         sampleCall ''GET'' ''/track'' None fsEmpty] startWorld)) = 2
   \<and> counterValue (serveImageRequestsCount (serveAll defaultConfig sampleLibraries
        [sampleCall ''GET'' ''/track'' None fsEmpty,
         sampleCall ''GET'' ''/state'' None fsEmpty,
         sampleCall ''GET'' ''/track'' None fsEmpty] startWorld)) ''success'' = 2
   \<and> counterValue (serveImageRequestsCount (serveAll defaultConfig sampleLibraries
        [sampleCall ''GET'' ''/track'' None fsEmpty,
         sampleCall ''GET'' ''/state'' None fsEmpty,
         sampleCall ''GET'' ''/track'' None fsEmpty] startWorld)) ''failure'' = 0
   \<and> serveImageRequestsSize (serveAll defaultConfig sampleLibraries
        [sampleCall ''GET'' ''/track'' None fsEmpty,
         sampleCall ''GET'' ''/state'' None fsEmpty,
         sampleCall ''GET'' ''/track'' None fsEmpty] startWorld) = 84"
proof -
  have h: "\<forall>c \<in> set [sampleCall ''GET'' ''/track'' None fsEmpty,
                sampleCall ''GET'' ''/state'' None fsEmpty,
                sampleCall ''GET'' ''/track'' None fsEmpty].
      reqPath (callRequest c) = trackingURLPath defaultConfig \<longrightarrow>
        reqMethod (callRequest c) = ''GET'' \<and> callConn c = None"
    by (simp add: sampleCall_def defaultConfig_def)
  have n: "2 = length (trackingCalls defaultConfig
               [sampleCall ''GET'' ''/track'' None fsEmpty,
                sampleCall ''GET'' ''/state'' None fsEmpty,
                sampleCall ''GET'' ''/track'' None fsEmpty])"
    by (simp add: trackingCalls_def sampleCall_def defaultConfig_def)
  have m: "map (\<lambda>c. (reqMethod (callRequest c), callConn c))
     (trackingCalls defaultConfig
        [sampleCall ''GET'' ''/track'' None fsEmpty,
         sampleCall ''GET'' ''/state'' None fsEmpty,
         sampleCall ''GET'' ''/track'' None fsEmpty]) = [(''GET'', None), (''GET'', None)]"
    by (simp add: trackingCalls_def sampleCall_def defaultConfig_def)
  from tracking_success_totals [OF default_tracking_cleanLiteral h n, of sampleLibraries] m
  show ?thesis by (simp only: GIF_length) simp
qed

text \<open>
  Claim C4. Every invocation of \<^verbatim>\<open>serveImage\<close> appends exactly one observation, the
  elapsed time, to the duration summary: whatever the method, whatever the connection does,
  on each exit of the handler. So after any sequence of requests, under any configuration,
  the number of observations has grown by the number of requests the router handed to
  \<^verbatim>\<open>serveImage\<close>.
\<close>

theorem image_duration_always_observed:
  "serveImageRequestDuration (snd (serveImage e w r s)) =
     serveImageRequestDuration s @ [clockExit e - clockEntry e]
   \<and> length (serveImageRequestDuration (snd (serveImage e w r s))) =
     Suc (length (serveImageRequestDuration s))
   \<and> length (serveImageRequestDuration (serveAll cfg lib cs s)) =
     length (serveImageRequestDuration s) + length (imageCalls cfg lib cs)"
  by (simp add: serveImage_duration serveAll_duration_length)

text \<open>
  Claim C5. A GET served by \<^verbatim>\<open>serveImage\<close> whose body write fails raises the
  \<^verbatim>\<open>failure\<close> counter by one and leaves the size counter and the \<^verbatim>\<open>success\<close> counter as
  they were. The error goes no further: \<^verbatim>\<open>serveImage\<close> has no result besides the writer
  and the state, it returns them on this path as on the others, and it writes nothing to
  the service log.
\<close>

theorem write_failure_counted:
  assumes "reqMethod r = ''GET''" and "writeErr w = Some (n, err)"
  shows "counterValue (serveImageRequestsCount (snd (serveImage e w r s))) ''failure'' =
           Suc (counterValue (serveImageRequestsCount s) ''failure'')
       \<and> serveImageRequestsSize (snd (serveImage e w r s)) = serveImageRequestsSize s
       \<and> counterValue (serveImageRequestsCount (snd (serveImage e w r s))) ''success'' =
           counterValue (serveImageRequestsCount s) ''success''
       \<and> serviceLog (snd (serveImage e w r s)) = serviceLog s"
  by (simp add: serveImage_failure [OF assms] counterValue_def)

text \<open>A connection that breaks after three bytes, in the start state.\<close>

theorem write_failure_counted_witness:
  "reqMethod \<lparr>reqMethod = ''GET'', reqPath = ''/track''\<rparr> = ''GET''
   \<and> writeErr (newResponseWriter (Some (3, ''broken pipe''))) = Some (3, ''broken pipe'')
   \<and> counterValue (serveImageRequestsCount (snd (serveImage (sampleEnv fsEmpty)
         (newResponseWriter (Some (3, ''broken pipe'')))
         \<lparr>reqMethod = ''GET'', reqPath = ''/track''\<rparr> startWorld))) ''failure'' = 1
   \<and> serveImageRequestsSize (snd (serveImage (sampleEnv fsEmpty)
         (newResponseWriter (Some (3, ''broken pipe'')))
         \<lparr>reqMethod = ''GET'', reqPath = ''/track''\<rparr> startWorld)) = 0
   \<and> counterValue (serveImageRequestsCount (snd (serveImage (sampleEnv fsEmpty)
         (newResponseWriter (Some (3, ''broken pipe'')))
         \<lparr>reqMethod = ''GET'', reqPath = ''/track''\<rparr> startWorld))) ''success'' = 0"
proof -
  have h1: "reqMethod \<lparr>reqMethod = ''GET'', reqPath = ''/track''\<rparr> = ''GET''"
    by simp
  have h2: "writeErr (newResponseWriter (Some (3, ''broken pipe''))) = Some (3, ''broken pipe'')"
    by (simp add: newResponseWriter_def)
  from write_failure_counted [OF h1 h2, of "sampleEnv fsEmpty" startWorld] h1 h2
  show ?thesis by (simp add: startWorld_def counterValue_def)
qed

text \<open>
  Claim C2. Let the state path and the tracking path be configured as literals in
  canonical form that differ, as the defaults \<^verbatim>\<open>/state\<close> and \<^verbatim>\<open>/track\<close> are. A GET
  to the state path is answered with status 200 when the configured marker path exists at
  the moment of the request, that is, when \<^verbatim>\<open>os.Stat\<close> of it succeeds, and with status
  503 otherwise, whatever the connection does; when the write goes through, the body is
  exactly \<^verbatim>\<open>OK\<close> (2 bytes) or exactly \<^verbatim>\<open>Error 503 (Service not available)\<close>
  (33 bytes). The response is the same in every process state, so nothing of an earlier
  request is kept: the marker as it is now decides the answer.
\<close>

theorem state_follows_marker:
  assumes "reqPath (callRequest c) = stateURLPath cfg"
      and "reqMethod (callRequest c) = ''GET''"
      and "cleanLiteral (stateURLPath cfg)"
      and "cleanLiteral (trackingURLPath cfg)"
      and "stateURLPath cfg \<noteq> trackingURLPath cfg"
  shows "status (fst (serve cfg lib c s)) =
           Some (if \<exists>fi. fsNow (callEnv c) (stateFilePath cfg) = Inr fi then 200 else 503)
       \<and> (callConn c = None \<longrightarrow>
            body (fst (serve cfg lib c s)) =
              (if \<exists>fi. fsNow (callEnv c) (stateFilePath cfg) = Inr fi then bytes ''OK''
               else bytes ''Error 503 (Service not available)''))
       \<and> length (bytes ''OK'') = 2
       \<and> length (bytes ''Error 503 (Service not available)'') = 33
       \<and> fst (serve cfg lib c s') = fst (serve cfg lib c s)"
proof -
  have to: "route cfg lib (reqPath (callRequest c)) = ToState"
    unfolding assms(1) using assms(3,4,5) by (rule route_state_distinct)
  note st = serve_state [OF to]
  have same: "fst (serve cfg lib c s') = fst (serve cfg lib c s)"
    unfolding st by (rule serveState_response_stateless)
  show ?thesis
  proof (cases "fsNow (callEnv c) (stateFilePath cfg)")
    case (Inl err)
    then have no: "\<not> (\<exists>fi. fsNow (callEnv c) (stateFilePath cfg) = Inr fi)"
      by simp
    have a: "status (fst (serve cfg lib c s)) = Some 503"
      unfolding st serveState_GET_unhealthy [OF assms(2) Inl] by (rule Write_503_status)
    have b: "body (fst (serve cfg lib c s)) = bytes ''Error 503 (Service not available)''"
      if "callConn c = None"
      unfolding st serveState_GET_unhealthy [OF assms(2) Inl] that by (rule Write_503_body)
    show ?thesis
      using a b same by (simp only: if_not_P [OF no] bytes_OK_length bytes_503_length) simp
  next
    case (Inr fi)
    then have yes: "\<exists>fi. fsNow (callEnv c) (stateFilePath cfg) = Inr fi"
      by blast
    have a: "status (fst (serve cfg lib c s)) = Some 200"
      unfolding st serveState_GET_healthy [OF assms(2) Inr] by (rule Write_new_status)
    have b: "body (fst (serve cfg lib c s)) = bytes ''OK''"
      if "callConn c = None"
      unfolding st serveState_GET_healthy [OF assms(2) Inr] that by (rule Write_new_body)
    show ?thesis
      using a b same by (simp only: if_P [OF yes] bytes_OK_length bytes_503_length) simp
  qed
qed

text \<open>
  Under the default configuration the marker is there for a first GET to \<^verbatim>\<open>/state\<close>
  and removed before the second, which is served in the state the first one left: 200 with
  \<^verbatim>\<open>OK\<close>, then 503 with the error text.
\<close>

theorem state_follows_marker_witness:
  "reqPath (callRequest (sampleCall ''GET'' ''/state'' None (fsTouch ''./state'' fsEmpty))) =
     stateURLPath defaultConfig
   \<and> reqMethod (callRequest (sampleCall ''GET'' ''/state'' None (fsTouch ''./state'' fsEmpty))) = ''GET''
   \<and> status (fst (serve defaultConfig sampleLibraries
        (sampleCall ''GET'' ''/state'' None (fsTouch ''./state'' fsEmpty)) startWorld)) = Some 200
   \<and> body (fst (serve defaultConfig sampleLibraries
        (sampleCall ''GET'' ''/state'' None (fsTouch ''./state'' fsEmpty)) startWorld)) = bytes ''OK''
   \<and> status (fst (serve defaultConfig sampleLibraries
        (sampleCall ''GET'' ''/state'' None (fsRemove ''./state'' (fsTouch ''./state'' fsEmpty)))
        (snd (serve defaultConfig sampleLibraries
           (sampleCall ''GET'' ''/state'' None (fsTouch ''./state'' fsEmpty)) startWorld)))) = Some 503
   \<and> body (fst (serve defaultConfig sampleLibraries
        (sampleCall ''GET'' ''/state'' None (fsRemove ''./state'' (fsTouch ''./state'' fsEmpty)))
        (snd (serve defaultConfig sampleLibraries
           (sampleCall ''GET'' ''/state'' None (fsTouch ''./state'' fsEmpty)) startWorld)))) =
       bytes ''Error 503 (Service not available)''"
proof -
  have p: "reqPath (callRequest (sampleCall ''GET'' ''/state'' None fs)) = stateURLPath defaultConfig"
    for fs by (simp add: sampleCall_def defaultConfig_def)
  have m: "reqMethod (callRequest (sampleCall ''GET'' ''/state'' None fs)) = ''GET''"
    for fs by (simp add: sampleCall_def)
  have k: "callConn (sampleCall ''GET'' ''/state'' None fs) = None"
    for fs by (simp add: sampleCall_def)
  have present: "(\<exists>fi. fsNow (callEnv (sampleCall ''GET'' ''/state'' None (fsTouch ''./state'' fsEmpty)))
                    (stateFilePath defaultConfig) = Inr fi) = True"
    by (simp add: sampleCall_def sampleEnv_def fsTouch_def defaultConfig_def)
  have absent: "(\<exists>fi. fsNow (callEnv (sampleCall ''GET'' ''/state'' None
                      (fsRemove ''./state'' (fsTouch ''./state'' fsEmpty))))
                    (stateFilePath defaultConfig) = Inr fi) = False"
    by (simp add: sampleCall_def sampleEnv_def fsTouch_def fsRemove_def defaultConfig_def)
  note first = state_follows_marker
      [OF p [of "fsTouch ''./state'' fsEmpty"] m [of "fsTouch ''./state'' fsEmpty"]
          default_state_cleanLiteral default_tracking_cleanLiteral default_paths_distinct,
       where lib = sampleLibraries and s = startWorld]
  note second = state_follows_marker
      [OF p [of "fsRemove ''./state'' (fsTouch ''./state'' fsEmpty)"]
          m [of "fsRemove ''./state'' (fsTouch ''./state'' fsEmpty)"]
          default_state_cleanLiteral default_tracking_cleanLiteral default_paths_distinct,
       where lib = sampleLibraries
         and s = "snd (serve defaultConfig sampleLibraries
           (sampleCall ''GET'' ''/state'' None (fsTouch ''./state'' fsEmpty)) startWorld)"]
  from first second p m k show ?thesis
    by (simp only: present absent if_True if_False)
qed

text \<open>
  Claim C6. \<^verbatim>\<open>serviceHealthy\<close> is true exactly when \<^verbatim>\<open>os.Stat\<close> of the configured
  marker path succeeds. Every error of the stat, whichever it is, gives the boolean false;
  the result is a boolean and nothing else. The process state is as before but for the
  trace entry of the stat itself: no metric and no log line changes.
\<close>

theorem serviceHealthy_iff_stat:
  "fst (serviceHealthy cfg fs s) = (\<exists>fi. fs (stateFilePath cfg) = Inr fi)
   \<and> (\<forall>err. fs (stateFilePath cfg) = Inl err \<longrightarrow> fst (serviceHealthy cfg fs s) = False)
   \<and> snd (serviceHealthy cfg fs s) = s\<lparr>statTrace := statTrace s @ [stateFilePath cfg]\<rparr>"
  by (simp add: serviceHealthy_fst serviceHealthy_snd)

text \<open>A marker that is there, one that is absent, and one that may not be read.\<close>

theorem serviceHealthy_iff_stat_witness:
  "fst (serviceHealthy defaultConfig (fsTouch ''./state'' fsEmpty) startWorld) = True
   \<and> fsEmpty (stateFilePath defaultConfig) = Inl ErrNotExist
   \<and> fst (serviceHealthy defaultConfig fsEmpty startWorld) = False
   \<and> (fsEmpty(''./state'' := Inl ErrPermission)) (stateFilePath defaultConfig) = Inl ErrPermission
   \<and> fst (serviceHealthy defaultConfig (fsEmpty(''./state'' := Inl ErrPermission)) startWorld) = False
   \<and> serveImageRequestsCount (snd (serviceHealthy defaultConfig fsEmpty startWorld)) =
       serveImageRequestsCount startWorld
   \<and> serviceLog (snd (serviceHealthy defaultConfig fsEmpty startWorld)) = serviceLog startWorld"
proof -
  have a: "fsEmpty (stateFilePath defaultConfig) = Inl ErrNotExist"
    by (simp add: fsEmpty_def)
  have b: "(fsEmpty(''./state'' := Inl ErrPermission)) (stateFilePath defaultConfig) = Inl ErrPermission"
    by (simp add: defaultConfig_def)
  have c: "(\<exists>fi. fsTouch ''./state'' fsEmpty (stateFilePath defaultConfig) = Inr fi) = True"
    by (simp add: fsTouch_def defaultConfig_def)
  from serviceHealthy_iff_stat [of defaultConfig "fsTouch ''./state'' fsEmpty" startWorld]
       serviceHealthy_iff_stat [of defaultConfig fsEmpty startWorld]
       serviceHealthy_iff_stat [of defaultConfig "fsEmpty(''./state'' := Inl ErrPermission)" startWorld]
       a b c
  show ?thesis by simp
qed

text \<open>
  Claim C3, amended. Let the tracking path and the state path be configured as literals
  in canonical form that differ, as the defaults are. A request to either path whose method
  is not GET is answered 404, and the outcome counters and the size counter stay as they
  were. The duration summary stays as it was for a request to the state path; for a request
  to the tracking path the deferred measurement of \<^verbatim>\<open>serveImage\<close>'s first line appends
  one observation.
\<close>

theorem non_GET_404_metrics:
  assumes "reqMethod (callRequest c) \<noteq> ''GET''"
      and "reqPath (callRequest c) = trackingURLPath cfg \<or> reqPath (callRequest c) = stateURLPath cfg"
      and "cleanLiteral (trackingURLPath cfg)"
      and "cleanLiteral (stateURLPath cfg)"
      and "stateURLPath cfg \<noteq> trackingURLPath cfg"
  shows "status (fst (serve cfg lib c s)) = Some 404
       \<and> serveImageRequestsCount (snd (serve cfg lib c s)) = serveImageRequestsCount s
       \<and> serveImageRequestsSize (snd (serve cfg lib c s)) = serveImageRequestsSize s
       \<and> serveImageRequestDuration (snd (serve cfg lib c s)) =
           (if reqPath (callRequest c) = trackingURLPath cfg
            then serveImageRequestDuration s @ [clockExit (callEnv c) - clockEntry (callEnv c)]
            else serveImageRequestDuration s)"
proof -
  note img = route_image_iff [OF assms(3)]
  have to: "route cfg lib (reqPath (callRequest c)) = ToImage
          \<or> route cfg lib (reqPath (callRequest c)) = ToState"
    using assms(2)
  proof
    assume "reqPath (callRequest c) = trackingURLPath cfg"
    then show ?thesis by (simp add: img)
  next
    assume p: "reqPath (callRequest c) = stateURLPath cfg"
    show ?thesis
      unfolding p using route_state_distinct [OF assms(4) assms(3) assms(5)] by (rule disjI2)
  qed
  show ?thesis
    by (simp add: serve_non_GET_writer [OF assms(1) to] serve_non_GET_world [OF assms(1) to]
        NotFound_status newResponseWriter_status durationObserve_def img)
qed

text \<open>A POST to \<^verbatim>\<open>/track\<close> and a PUT to \<^verbatim>\<open>/state\<close> in the start state.\<close>

theorem non_GET_404_metrics_witness:
  "reqMethod (callRequest (sampleCall ''POST'' ''/track'' None fsEmpty)) = ''POST''
   \<and> reqPath (callRequest (sampleCall ''POST'' ''/track'' None fsEmpty)) = trackingURLPath defaultConfig
   \<and> status (fst (serve defaultConfig sampleLibraries
        (sampleCall ''POST'' ''/track'' None fsEmpty) startWorld)) = Some 404
   \<and> serveImageRequestsCount (snd (serve defaultConfig sampleLibraries
        (sampleCall ''POST'' ''/track'' None fsEmpty) startWorld)) = Map.empty
   \<and> serveImageRequestsSize (snd (serve defaultConfig sampleLibraries
        (sampleCall ''POST'' ''/track'' None fsEmpty) startWorld)) = 0
   \<and> serveImageRequestDuration (snd (serve defaultConfig sampleLibraries
        (sampleCall ''POST'' ''/track'' None fsEmpty) startWorld)) = [250]
   \<and> reqPath (callRequest (sampleCall ''PUT'' ''/state'' None fsEmpty)) = stateURLPath defaultConfig
   \<and> status (fst (serve defaultConfig sampleLibraries
        (sampleCall ''PUT'' ''/state'' None fsEmpty) startWorld)) = Some 404
   \<and> serveImageRequestDuration (snd (serve defaultConfig sampleLibraries
        (sampleCall ''PUT'' ''/state'' None fsEmpty) startWorld)) = []"
proof -
  have m1: "reqMethod (callRequest (sampleCall ''POST'' ''/track'' None fsEmpty)) \<noteq> ''GET''"
    and e1: "reqMethod (callRequest (sampleCall ''POST'' ''/track'' None fsEmpty)) = ''POST''"
    by (simp_all add: sampleCall_def)
  have p1: "reqPath (callRequest (sampleCall ''POST'' ''/track'' None fsEmpty)) = trackingURLPath defaultConfig"
    by (simp add: sampleCall_def defaultConfig_def)
  have m2: "reqMethod (callRequest (sampleCall ''PUT'' ''/state'' None fsEmpty)) \<noteq> ''GET''"
    by (simp add: sampleCall_def)
  have p2: "reqPath (callRequest (sampleCall ''PUT'' ''/state'' None fsEmpty)) = stateURLPath defaultConfig"
    and q2: "reqPath (callRequest (sampleCall ''PUT'' ''/state'' None fsEmpty)) \<noteq> trackingURLPath defaultConfig"
    by (simp_all add: sampleCall_def defaultConfig_def)
  have c1: "clockExit (callEnv (sampleCall ''POST'' ''/track'' None fsEmpty)) -
            clockEntry (callEnv (sampleCall ''POST'' ''/track'' None fsEmpty)) = 250"
    by (simp add: sampleCall_def sampleEnv_def)
  note t1 = non_GET_404_metrics [OF m1 disjI1 [OF p1] default_tracking_cleanLiteral
      default_state_cleanLiteral default_paths_distinct, of sampleLibraries startWorld]
  note t2 = non_GET_404_metrics [OF m2 disjI2 [OF p2] default_tracking_cleanLiteral
      default_state_cleanLiteral default_paths_distinct, of sampleLibraries startWorld]
  from t1 t2 e1 p1 p2 q2 c1 show ?thesis
    by (simp add: startWorld_def)
qed

text \<open>
  Claim C3 as stated fails: under the default configuration a POST to \<^verbatim>\<open>/track\<close> is
  answered 404, and the duration summary, empty before, holds one observation afterwards.
\<close>

theorem non_GET_tracking_observed:
  "reqMethod (callRequest (sampleCall ''POST'' ''/track'' None fsEmpty)) \<noteq> ''GET''
   \<and> reqPath (callRequest (sampleCall ''POST'' ''/track'' None fsEmpty)) = trackingURLPath defaultConfig
   \<and> status (fst (serve defaultConfig sampleLibraries
        (sampleCall ''POST'' ''/track'' None fsEmpty) startWorld)) = Some 404
   \<and> serveImageRequestDuration startWorld = []
   \<and> serveImageRequestDuration (snd (serve defaultConfig sampleLibraries
        (sampleCall ''POST'' ''/track'' None fsEmpty) startWorld)) = [250]
   \<and> serveImageRequestDuration (snd (serve defaultConfig sampleLibraries
        (sampleCall ''POST'' ''/track'' None fsEmpty) startWorld)) \<noteq> serveImageRequestDuration startWorld"
proof -
  have m1: "reqMethod (callRequest (sampleCall ''POST'' ''/track'' None fsEmpty)) \<noteq> ''GET''"
    by (simp add: sampleCall_def)
  have p1: "reqPath (callRequest (sampleCall ''POST'' ''/track'' None fsEmpty)) = trackingURLPath defaultConfig"
    by (simp add: sampleCall_def defaultConfig_def)
  have to: "route defaultConfig sampleLibraries
              (reqPath (callRequest (sampleCall ''POST'' ''/track'' None fsEmpty))) = ToImage"
    using p1 by (simp only: route_image_iff [OF default_tracking_cleanLiteral])
  have w: "fst (serve defaultConfig sampleLibraries (sampleCall ''POST'' ''/track'' None fsEmpty) startWorld) =
      NotFound (newResponseWriter None) (callRequest (sampleCall ''POST'' ''/track'' None fsEmpty))"
    using serve_non_GET_writer [OF m1 disjI1 [OF to], of startWorld]
    by (simp add: sampleCall_def)
  have s: "snd (serve defaultConfig sampleLibraries (sampleCall ''POST'' ''/track'' None fsEmpty) startWorld) =
      durationObserve 250 startWorld"
    using serve_non_GET_world [OF m1 disjI1 [OF to], of startWorld] to
    by (simp add: sampleCall_def sampleEnv_def)
  have st: "status (fst (serve defaultConfig sampleLibraries
        (sampleCall ''POST'' ''/track'' None fsEmpty) startWorld)) = Some 404"
    unfolding w by (simp add: NotFound_status newResponseWriter_status)
  have d0: "serveImageRequestDuration startWorld = []"
    by (simp add: startWorld_def)
  have d1: "serveImageRequestDuration (snd (serve defaultConfig sampleLibraries
        (sampleCall ''POST'' ''/track'' None fsEmpty) startWorld)) = [250]"
    unfolding s by (simp add: durationObserve_def d0)
  show ?thesis
    unfolding d1 d0 using m1 p1 st by simp
qed

text \<open>
  Claim C8, amended. Let the tracking path and the state path be configured as literals
  in canonical form, as the defaults are. Every response to a GET on either path carries
  the header \<^verbatim>\<open>Cache-Control: no-cache, no-store, must-revalidate\<close>, on every branch of
  the two handlers.
\<close>

theorem GET_cache_control:
  assumes "reqMethod (callRequest c) = ''GET''"
      and "reqPath (callRequest c) = trackingURLPath cfg \<or> reqPath (callRequest c) = stateURLPath cfg"
      and "cleanLiteral (trackingURLPath cfg)"
      and "cleanLiteral (stateURLPath cfg)"
  shows "sentHeader (fst (serve cfg lib c s)) ''Cache-Control'' =
           Some [''no-cache, no-store, must-revalidate'']"
proof -
  have to: "route cfg lib (reqPath (callRequest c)) = ToImage
          \<or> route cfg lib (reqPath (callRequest c)) = ToState"
    using assms(2)
  proof
    assume "reqPath (callRequest c) = trackingURLPath cfg"
    then show ?thesis by (simp add: route_image_iff [OF assms(3)])
  next
    assume p: "reqPath (callRequest c) = stateURLPath cfg"
    show ?thesis
      unfolding p using assms(4) by (rule route_state_path)
  qed
  from assms(1) to show ?thesis by (rule serve_GET_writer)
qed

text \<open>A GET to \<^verbatim>\<open>/state\<close> without a marker: the 503 carries the header.\<close>

theorem GET_cache_control_witness:
  "reqMethod (callRequest (sampleCall ''GET'' ''/state'' None fsEmpty)) = ''GET''
   \<and> reqPath (callRequest (sampleCall ''GET'' ''/state'' None fsEmpty)) = stateURLPath defaultConfig
   \<and> sentHeader (fst (serve defaultConfig sampleLibraries
        (sampleCall ''GET'' ''/state'' None fsEmpty) startWorld)) ''Cache-Control'' =
       Some [''no-cache, no-store, must-revalidate'']"
proof -
  have m: "reqMethod (callRequest (sampleCall ''GET'' ''/state'' None fsEmpty)) = ''GET''"
    by (simp add: sampleCall_def)
  have p: "reqPath (callRequest (sampleCall ''GET'' ''/state'' None fsEmpty)) = stateURLPath defaultConfig"
    by (simp add: sampleCall_def defaultConfig_def)
  from GET_cache_control [OF m disjI2 [OF p] default_tracking_cleanLiteral
      default_state_cleanLiteral, of sampleLibraries startWorld] m p
  show ?thesis by simp
qed

text \<open>
  Claim C8 as stated fails: under the default configuration the 404 that answers a POST
  to \<^verbatim>\<open>/track\<close> or to \<^verbatim>\<open>/state\<close> is written before either handler sets the header,
  and carries no \<^verbatim>\<open>Cache-Control\<close>.
\<close>

theorem non_GET_without_cache_control:
  "reqPath (callRequest (sampleCall ''POST'' ''/track'' None fsEmpty)) = trackingURLPath defaultConfig
   \<and> status (fst (serve defaultConfig sampleLibraries
        (sampleCall ''POST'' ''/track'' None fsEmpty) startWorld)) = Some 404
   \<and> sentHeader (fst (serve defaultConfig sampleLibraries
        (sampleCall ''POST'' ''/track'' None fsEmpty) startWorld)) ''Cache-Control'' = None
   \<and> header (fst (serve defaultConfig sampleLibraries
        (sampleCall ''POST'' ''/track'' None fsEmpty) startWorld)) ''Cache-Control'' = None
   \<and> reqPath (callRequest (sampleCall ''POST'' ''/state'' None fsEmpty)) = stateURLPath defaultConfig
   \<and> status (fst (serve defaultConfig sampleLibraries
        (sampleCall ''POST'' ''/state'' None fsEmpty) startWorld)) = Some 404
   \<and> sentHeader (fst (serve defaultConfig sampleLibraries
        (sampleCall ''POST'' ''/state'' None fsEmpty) startWorld)) ''Cache-Control'' = None"
proof -
  have m1: "reqMethod (callRequest (sampleCall ''POST'' ''/track'' None fsEmpty)) \<noteq> ''GET''"
    by (simp add: sampleCall_def)
  have p1: "reqPath (callRequest (sampleCall ''POST'' ''/track'' None fsEmpty)) = trackingURLPath defaultConfig"
    by (simp add: sampleCall_def defaultConfig_def)
  have m2: "reqMethod (callRequest (sampleCall ''POST'' ''/state'' None fsEmpty)) \<noteq> ''GET''"
    by (simp add: sampleCall_def)
  have p2: "reqPath (callRequest (sampleCall ''POST'' ''/state'' None fsEmpty)) = stateURLPath defaultConfig"
    by (simp add: sampleCall_def defaultConfig_def)
  have to1: "route defaultConfig sampleLibraries
              (reqPath (callRequest (sampleCall ''POST'' ''/track'' None fsEmpty))) = ToImage"
    using p1 by (simp only: route_image_iff [OF default_tracking_cleanLiteral])
  have to2: "route defaultConfig sampleLibraries
              (reqPath (callRequest (sampleCall ''POST'' ''/state'' None fsEmpty))) = ToState"
    unfolding p2
    by (rule route_state_distinct [OF default_state_cleanLiteral default_tracking_cleanLiteral
          default_paths_distinct])
  have h: "header (NotFound (newResponseWriter we) r) ''Cache-Control'' = None" for we r
    by (simp add: NotFound_def httpError_def Let_def Write_def WriteHeader_def headerSet_def
        headerDel_def newResponseWriter_def split: option.splits prod.splits)
  have sh: "sentHeader (NotFound (newResponseWriter we) r) ''Cache-Control'' = None" for we r
    by (simp add: NotFound_sentHeader newResponseWriter_status) (simp add: newResponseWriter_def)
  have st: "status (NotFound (newResponseWriter we) r) = Some 404" for we r
    by (simp add: NotFound_status newResponseWriter_status)
  show ?thesis
    using p1 p2
    by (simp add: serve_non_GET_writer [OF m1 disjI1 [OF to1]]
        serve_non_GET_writer [OF m2 disjI2 [OF to2]] h sh st)
qed

text \<open>
  Claim C9. \<open>GIF\<close> is a constant of 42 bytes that begins with the ASCII bytes of
  \<^verbatim>\<open>GIF89a\<close>. No handler changes it: with the tracking path configured as a literal in
  canonical form, a GET to that path whose write succeeds is answered, in every state, with
  these 42 bytes as \<^verbatim>\<open>image/gif\<close>, and adds 42 to the size counter.
\<close>

theorem GIF_payload_fixed:
  assumes "reqPath (callRequest c) = trackingURLPath cfg"
      and "reqMethod (callRequest c) = ''GET''"
      and "callConn c = None"
      and "cleanLiteral (trackingURLPath cfg)"
  shows "length GIF = 42
       \<and> take 6 GIF = bytes ''GIF89a''
       \<and> body (fst (serve cfg lib c s)) = GIF
       \<and> length (body (fst (serve cfg lib c s))) = 42
       \<and> sentHeader (fst (serve cfg lib c s)) ''Content-Type'' = Some [''image/gif'']
       \<and> serveImageRequestsSize (snd (serve cfg lib c s)) = serveImageRequestsSize s + 42"
proof -
  have to: "route cfg lib (reqPath (callRequest c)) = ToImage"
    using assms(1) by (simp only: route_image_iff [OF assms(4)])
  have wok: "writeErr (newResponseWriter (callConn c)) = None"
    using assms(3) by (simp add: newResponseWriter_def)
  have b: "body (fst (serve cfg lib c s)) = GIF"
    by (simp add: serve_image [OF to] assms(3) serveImage_GET_writer [OF assms(2)]
        Write_new_body)
  have h: "sentHeader (fst (serve cfg lib c s)) ''Content-Type'' = Some [''image/gif'']"
    by (simp add: serve_image [OF to] serveImage_GET_writer [OF assms(2)]
        Write_new_sentHeader)
  have z: "serveImageRequestsSize (snd (serve cfg lib c s)) = serveImageRequestsSize s + 42"
    by (simp add: serve_image [OF to] serveImage_success(2) [OF assms(2) wok] GIF_length)
  show ?thesis
    by (simp add: b h z GIF_length GIF_signature)
qed

text \<open>One GET to \<^verbatim>\<open>/track\<close> in the start state: the bytes of the source, and 42.\<close>

theorem GIF_payload_fixed_witness:
  "reqPath (callRequest (sampleCall ''GET'' ''/track'' None fsEmpty)) = trackingURLPath defaultConfig
   \<and> reqMethod (callRequest (sampleCall ''GET'' ''/track'' None fsEmpty)) = ''GET''
   \<and> callConn (sampleCall ''GET'' ''/track'' None fsEmpty) = None
   \<and> body (fst (serve defaultConfig sampleLibraries
        (sampleCall ''GET'' ''/track'' None fsEmpty) startWorld)) =
       [71, 73, 70, 56, 57, 97, 1, 0, 1, 0, 128, 0, 0, 0, 0, 0,
        255, 255, 255, 33, 249, 4, 1, 0, 0, 0, 0, 44, 0, 0, 0, 0,
        1, 0, 1, 0, 0, 2, 1, 68, 0, 59]
   \<and> serveImageRequestsSize (snd (serve defaultConfig sampleLibraries
        (sampleCall ''GET'' ''/track'' None fsEmpty) startWorld)) = 42"
proof -
  have p: "reqPath (callRequest (sampleCall ''GET'' ''/track'' None fsEmpty)) = trackingURLPath defaultConfig"
    by (simp add: sampleCall_def defaultConfig_def)
  have m: "reqMethod (callRequest (sampleCall ''GET'' ''/track'' None fsEmpty)) = ''GET''"
    by (simp add: sampleCall_def)
  have k: "callConn (sampleCall ''GET'' ''/track'' None fsEmpty) = None"
    by (simp add: sampleCall_def)
  have z: "serveImageRequestsSize startWorld = 0"
    by (simp add: startWorld_def)
  from GIF_payload_fixed [OF p m k default_tracking_cleanLiteral, of sampleLibraries startWorld]
       p m k z
  show ?thesis by (simp add: GIF_def)
qed

text \<open>
  Claim C10. Let the state path be configured as a literal in canonical form. A request
  to the state path with a method other than GET is answered 404 and no \<^verbatim>\<open>os.Stat\<close>
  takes place: the trace of stats is as before, and the response is the same whatever the
  filesystem holds.
\<close>

theorem state_non_GET_skips_stat:
  assumes "reqMethod (callRequest c) \<noteq> ''GET''"
      and "reqPath (callRequest c) = stateURLPath cfg"
      and "cleanLiteral (stateURLPath cfg)"
  shows "status (fst (serve cfg lib c s)) = Some 404
       \<and> statTrace (snd (serve cfg lib c s)) = statTrace s
       \<and> fst (serve cfg lib (c\<lparr>callEnv := (callEnv c)\<lparr>fsNow := fs'\<rparr>\<rparr>) s) = fst (serve cfg lib c s)"
proof -
  have to: "route cfg lib (reqPath (callRequest c)) = ToImage
          \<or> route cfg lib (reqPath (callRequest c)) = ToState"
    unfolding assms(2) using assms(3) by (rule route_state_path)
  have m': "reqMethod (callRequest (c\<lparr>callEnv := (callEnv c)\<lparr>fsNow := fs'\<rparr>\<rparr>)) \<noteq> ''GET''"
    using assms(1) by simp
  have to': "route cfg lib (reqPath (callRequest (c\<lparr>callEnv := (callEnv c)\<lparr>fsNow := fs'\<rparr>\<rparr>))) = ToImage
          \<or> route cfg lib (reqPath (callRequest (c\<lparr>callEnv := (callEnv c)\<lparr>fsNow := fs'\<rparr>\<rparr>))) = ToState"
    using to by simp
  have a: "status (fst (serve cfg lib c s)) = Some 404"
    by (simp add: serve_non_GET_writer [OF assms(1) to] NotFound_status newResponseWriter_status)
  have b: "statTrace (snd (serve cfg lib c s)) = statTrace s"
    by (simp add: serve_non_GET_world [OF assms(1) to] durationObserve_def)
  have c: "fst (serve cfg lib (c\<lparr>callEnv := (callEnv c)\<lparr>fsNow := fs'\<rparr>\<rparr>) s) = fst (serve cfg lib c s)"
    by (simp add: serve_non_GET_writer [OF assms(1) to] serve_non_GET_writer [OF m' to'])
  from a b c show ?thesis by simp
qed

text \<open>A POST to \<^verbatim>\<open>/state\<close>, without the marker and with it.\<close>

theorem state_non_GET_skips_stat_witness:
  "reqMethod (callRequest (sampleCall ''POST'' ''/state'' None fsEmpty)) = ''POST''
   \<and> reqPath (callRequest (sampleCall ''POST'' ''/state'' None fsEmpty)) = stateURLPath defaultConfig
   \<and> status (fst (serve defaultConfig sampleLibraries
        (sampleCall ''POST'' ''/state'' None fsEmpty) startWorld)) = Some 404
   \<and> statTrace (snd (serve defaultConfig sampleLibraries
        (sampleCall ''POST'' ''/state'' None fsEmpty) startWorld)) = []
   \<and> fst (serve defaultConfig sampleLibraries
        (sampleCall ''POST'' ''/state'' None (fsTouch ''./state'' fsEmpty)) startWorld) =
     fst (serve defaultConfig sampleLibraries
        (sampleCall ''POST'' ''/state'' None fsEmpty) startWorld)"
proof -
  have m: "reqMethod (callRequest (sampleCall ''POST'' ''/state'' None fsEmpty)) \<noteq> ''GET''"
    and e: "reqMethod (callRequest (sampleCall ''POST'' ''/state'' None fsEmpty)) = ''POST''"
    by (simp_all add: sampleCall_def)
  have p: "reqPath (callRequest (sampleCall ''POST'' ''/state'' None fsEmpty)) = stateURLPath defaultConfig"
    by (simp add: sampleCall_def defaultConfig_def)
  have u: "(sampleCall ''POST'' ''/state'' None fsEmpty)
             \<lparr>callEnv := (callEnv (sampleCall ''POST'' ''/state'' None fsEmpty))
                \<lparr>fsNow := fsTouch ''./state'' fsEmpty\<rparr>\<rparr> =
           sampleCall ''POST'' ''/state'' None (fsTouch ''./state'' fsEmpty)"
    by (simp add: sampleCall_def sampleEnv_def)
  have z: "statTrace startWorld = []"
    by (simp add: startWorld_def)
  from state_non_GET_skips_stat [OF m p default_state_cleanLiteral,
         of sampleLibraries startWorld "fsTouch ''./state'' fsEmpty"]
       e p z
  show ?thesis by (simp only: u)
qed

end
